theory Spec2Isabelle
  imports Complex_Main
begin

section \<open>The example server \<open>examples/simple-mcp-server.py\<close>\<close>

text \<open>
  The program is a FastAPI application with six handlers. Each handler returns a Python
  dict literal, which the framework sends as a JSON document. The handlers read the
  system clock (\<open>datetime.now()\<close>) and the random generator (\<open>random.choice\<close>); both
  are effects, modelled by explicit state passing over a \<open>world\<close>.
\<close>

subsection \<open>Values\<close>

text \<open>
  A Python float: a finite number (taken as a real; nothing below depends on rounding),
  an infinity or a NaN. \<open>json.loads\<close> returns an infinity for a literal such as \<open>1e400\<close>, and
  accepts the constants \<open>NaN\<close>, \<open>Infinity\<close> and \<open>-Infinity\<close>, which are not JSON.
\<close>

datatype pyfloat = Finite real | PosInf | NegInf | NaN

text \<open>
  JSON-compatible Python values. A dict is an association list in insertion order, as a
  Python dict literal keeps it. A Python str is held as its bytes under UTF-8 with the
  \<open>surrogatepass\<close> error handler, which encodes every str: a lone surrogate
  (U+D800 to U+DFFF), which \<open>json.loads\<close> returns for an escape such as \<open>\ud800\<close>, is the
  three bytes \<open>ED\<close>, \<open>A0\<close> to \<open>BF\<close>, \<open>80\<close> to \<open>BF\<close>.
\<close>

datatype json =
    JNull
  | JBool bool
  | JInt int
  | JFloat pyfloat
  | JStr string
  | JArr "json list"
  | JObj "(string \<times> json) list"

text \<open>\<open>d[k]\<close> on a value: the entry of a dict under a key, \<open>None\<close> for anything else.\<close>

fun json_get :: "json \<Rightarrow> string \<Rightarrow> json option" where
  "json_get (JObj kvs) k = map_of kvs k"
| "json_get _ k = None"

fun json_items :: "json \<Rightarrow> json list" where
  "json_items (JArr xs) = xs"
| "json_items _ = []"

fun is_str :: "json \<Rightarrow> bool" where
  "is_str (JStr s) = True"
| "is_str _ = False"


text \<open>
  \<open>s.encode("utf-8")\<close> succeeds unless the str holds a surrogate; in the bytes, a
  surrogate is a byte \<open>ED\<close> followed by a byte from \<open>A0\<close> to \<open>BF\<close> (in UTF-8 proper \<open>ED\<close> is
  followed by \<open>80\<close> to \<open>9F\<close>).
\<close>

fun has_surrogate :: "string \<Rightarrow> bool" where
  "has_surrogate (a # b # cs) =
     ((a = CHR 0xED \<and> (0xA0::nat) \<le> of_char b \<and> of_char b \<le> (0xBF::nat)) \<or>
      has_surrogate (b # cs))"
| "has_surrogate _ = False"

definition utf8_encodable :: "string \<Rightarrow> bool" where
  "utf8_encodable s = (\<not> has_surrogate s)"

text \<open>A field that is present and holds a string that is not empty.\<close>

definition nonempty_str_field :: "json \<Rightarrow> string \<Rightarrow> bool" where
  "nonempty_str_field j k = (case json_get j k of Some (JStr s) \<Rightarrow> s \<noteq> [] | _ \<Rightarrow> False)"

subsection \<open>The clock and \<open>isoformat\<close>\<close>

text \<open>
  \<open>datetime.now()\<close> returns a naive datetime: the fields of the local wall-clock time.
\<close>

record datetime =
  year :: nat
  month :: nat
  day :: nat
  hour :: nat
  minute :: nat
  second :: nat
  microsecond :: nat

fun digits :: "nat \<Rightarrow> string" where
  "digits n = (if n < 10 then [char_of (48 + n)] else digits (n div 10) @ [char_of (48 + n mod 10)])"

declare digits.simps [simp del]

text \<open>\<open>"%0wd" % n\<close>: decimal, padded with zeros on the left to at least \<open>w\<close> characters.\<close>

definition zpad :: "nat \<Rightarrow> nat \<Rightarrow> string" where
  "zpad w n = replicate (w - length (digits n)) (CHR ''0'') @ digits n"

text \<open>
  \<open>datetime.isoformat()\<close> with its default arguments: \<open>YYYY-MM-DDTHH:MM:SS\<close>, followed by
  \<open>.ffffff\<close> when the microsecond field is not zero.
\<close>

definition isoformat :: "datetime \<Rightarrow> string" where
  "isoformat d =
     zpad 4 (year d) @ ''-'' @ zpad 2 (month d) @ ''-'' @ zpad 2 (day d) @ ''T'' @
     zpad 2 (hour d) @ '':'' @ zpad 2 (minute d) @ '':'' @ zpad 2 (second d) @
     (if microsecond d = 0 then [] else ''.'' @ zpad 6 (microsecond d))"

subsection \<open>The world: clock readings and random draws\<close>

text \<open>
  \<open>clock w i\<close> is what the \<open>i\<close>-th call of \<open>datetime.now()\<close> returns and \<open>ticks w\<close> counts
  the calls made so far; \<open>draws w i\<close> is the index that the random generator produces at
  its \<open>i\<close>-th call and \<open>drawn w\<close> counts those calls.
\<close>

record world =
  clock :: "nat \<Rightarrow> datetime"
  ticks :: nat
  draws :: "nat \<Rightarrow> nat"
  drawn :: nat

text \<open>
  What the program takes from libraries as pure functions: \<open>json.loads\<close> on the bytes of a
  request body and \<open>datetime.timestamp()\<close>, which converts a naive datetime to POSIX
  seconds under the time zone of the process. \<open>json.loads\<close> returns the decoded value or
  raises: \<open>JSONDecodeError\<close> on a syntax error, another exception otherwise (\<open>ValueError\<close> on
  an integer literal of more than 4300 digits, \<open>UnicodeDecodeError\<close> on bytes that are not
  UTF-8, \<open>RecursionError\<close> on very deep nesting). An integer it returns is therefore
  short enough for \<open>json.dumps\<close> to print it again. \<open>bytes_decode b\<close> says whether
  \<open>b.decode()\<close> succeeds, that is, whether the bytes are UTF-8.
\<close>

datatype loads_error = JSONDecodeError | OtherError

record pylib =
  json_loads :: "string \<Rightarrow> loads_error + json"
  timestamp :: "datetime \<Rightarrow> real"
  bytes_decode :: "string \<Rightarrow> bool"

datatype py_error = IndexError

definition now :: "world \<Rightarrow> datetime \<times> world" where
  "now w = (clock w (ticks w), w\<lparr>ticks := Suc (ticks w)\<rparr>)"

text \<open>
  \<open>random.choice(seq)\<close> is \<open>seq[self._randbelow(len(seq))]\<close>; it raises \<open>IndexError\<close> on an
  empty sequence. The index is the generator's next draw.
\<close>

definition random_choice :: "'a list \<Rightarrow> world \<Rightarrow> (py_error + 'a) \<times> world" where
  "random_choice seq w =
     (let k = draws w (drawn w); w' = w\<lparr>drawn := Suc (drawn w)\<rparr>
      in (if k < length seq then Inr (seq ! k) else Inl IndexError, w'))"

subsection \<open>The handlers\<close>

definition root_handler :: json where
  "root_handler = JObj [(''message'', JStr ''Simple MCP Server is running!'')]"

definition health :: "world \<Rightarrow> json \<times> world" where
  "health w =
     (let (t, w1) = now w
      in (JObj [(''status'', JStr ''healthy''), (''timestamp'', JStr (isoformat t))], w1))"

definition facts :: "string list" where
  "facts =
     [''The MCP protocol was designed to standardize AI tool integration'',
      ''Octopuses have three hearts and blue blood'',
      ''Honey never spoils - archaeologists have found edible honey in Egyptian tombs'',
      ''A group of flamingos is called a '' @ [CHR 0x27] @ ''flamboyance'' @ [CHR 0x27],
      ''The shortest war in history lasted only 38-45 minutes'']"

text \<open>The dict literal evaluates its values in order: the random pick, then the clock.\<close>

definition get_random_fact :: "world \<Rightarrow> (py_error + json) \<times> world" where
  "get_random_fact w =
     (case random_choice facts w of
        (Inl e, w1) \<Rightarrow> (Inl e, w1)
      | (Inr f, w1) \<Rightarrow>
          (let (t, w2) = now w1
           in (Inr (JObj [(''fact'', JStr f), (''timestamp'', JStr (isoformat t))]), w2)))"

text \<open>Two calls of \<open>datetime.now()\<close>: one for \<open>current_time\<close>, one for \<open>unix_timestamp\<close>.\<close>

definition get_current_time :: "pylib \<Rightarrow> world \<Rightarrow> json \<times> world" where
  "get_current_time lib w =
     (let (t1, w1) = now w; (t2, w2) = now w1
      in (JObj [(''current_time'', JStr (isoformat t1)),
                (''timezone'', JStr ''UTC''),
                (''unix_timestamp'', JFloat (Finite (timestamp lib t2)))], w2))"

definition echo_message :: "(string \<times> json) list \<Rightarrow> world \<Rightarrow> json \<times> world" where
  "echo_message data w =
     (let (t, w1) = now w
      in (JObj [(''echoed'', JObj data),
                (''timestamp'', JStr (isoformat t)),
                (''message'', JStr ''Echo successful'')], w1))"

definition mcp_endpoint :: json where
  "mcp_endpoint =
     JObj [(''tools'', JArr [
              JObj [(''name'', JStr ''get_random_fact''),
                    (''description'', JStr ''Get a random interesting fact''),
                    (''url'', JStr ''/random-fact''),
                    (''method'', JStr ''GET'')],
              JObj [(''name'', JStr ''get_current_time''),
                    (''description'', JStr ''Get the current time''),
                    (''url'', JStr ''/time''),
                    (''method'', JStr ''GET'')],
              JObj [(''name'', JStr ''health_check''),
                    (''description'', JStr ''Check server health status''),
                    (''url'', JStr ''/health''),
                    (''method'', JStr ''GET'')]]),
           (''server_info'', JObj [
              (''name'', JStr ''Simple MCP Server''),
              (''version'', JStr ''1.0.0''),
              (''description'', JStr ''A simple MCP server for testing'')])]"

subsection \<open>From the handler's return value to the response\<close>

text \<open>
  The framework passes what a handler returns through \<open>jsonable_encoder\<close> (FastAPI's
  \<open>serialize_response\<close>, with the default \<open>sqlalchemy_safe=True\<close>): in every dict, at every
  depth, an entry whose key starts with \<open>_sa\<close> is dropped; lists and dicts are encoded
  entry by entry; \<open>str\<close>, \<open>int\<close>, \<open>float\<close>, \<open>bool\<close> and \<open>None\<close> are returned as they are.
\<close>

definition sa_key :: "string \<Rightarrow> bool" where
  "sa_key k = (take 3 k = ''_sa'')"

fun jsonable_encoder :: "json \<Rightarrow> json" where
  "jsonable_encoder (JObj kvs) =
     JObj (map (\<lambda>(k, v). (k, jsonable_encoder v)) (filter (\<lambda>(k, v). \<not> sa_key k) kvs))"
| "jsonable_encoder (JArr xs) = JArr (map jsonable_encoder xs)"
| "jsonable_encoder v = v"

text \<open>
  \<open>JSONResponse.render\<close> is \<open>json.dumps(content, ensure_ascii=False, allow_nan=False,
  ...).encode("utf-8")\<close>: it raises \<open>ValueError\<close> on a float that is not finite and
  \<open>UnicodeEncodeError\<close> on a str, key or value, that holds a surrogate.
\<close>

fun renderable :: "json \<Rightarrow> bool" where
  "renderable (JFloat f) = (case f of Finite r \<Rightarrow> True | _ \<Rightarrow> False)"
| "renderable (JStr s) = utf8_encodable s"
| "renderable (JArr xs) = list_all renderable xs"
| "renderable (JObj kvs) = list_all (\<lambda>(k, v). utf8_encodable k \<and> renderable v) kvs"
| "renderable v = True"


subsection \<open>Routing\<close>

datatype http_method = GET | POST | PUT | DELETE | PATCH | HEAD | OPTIONS

fun method_name :: "http_method \<Rightarrow> string" where
  "method_name GET = ''GET''"
| "method_name POST = ''POST''"
| "method_name PUT = ''PUT''"
| "method_name DELETE = ''DELETE''"
| "method_name PATCH = ''PATCH''"
| "method_name HEAD = ''HEAD''"
| "method_name OPTIONS = ''OPTIONS''"

datatype endpoint = Root | Health | RandomFact | CurrentTime | Echo | Mcp

text \<open>
  The route table that the decorators \<open>@app.get\<close> and \<open>@app.post\<close> build, in the order of
  the file.
\<close>

definition routes :: "(http_method \<times> string \<times> endpoint) list" where
  "routes =
     [(GET, ''/'', Root),
      (GET, ''/health'', Health),
      (GET, ''/random-fact'', RandomFact),
      (GET, ''/time'', CurrentTime),
      (POST, ''/echo'', Echo),
      (POST, ''/mcp'', Mcp)]"

text \<open>
  What the framework reads of the \<open>Content-Type\<close> header: no header, a type
  \<open>application/json\<close> or \<open>application/...+json\<close>, or anything else.
\<close>

datatype content_type = NoContentType | JsonContentType | OtherContentType

record request =
  req_method :: http_method
  req_path :: string
  req_body :: string
  req_content_type :: content_type

datatype response = Ok json | HttpError nat

definition is_4xx :: "response \<Rightarrow> bool" where
  "is_4xx r = (case r of Ok j \<Rightarrow> False | HttpError c \<Rightarrow> 400 \<le> c \<and> c < 500)"

text \<open>
  The response to a handler's return value: the encoded value with status 200, or status
  500 when rendering it raises.
\<close>

definition json_response :: "json \<Rightarrow> response" where
  "json_response v =
     (let content = jsonable_encoder v
      in if renderable content then Ok content else HttpError 500)"

text \<open>
  The answer to a body that decodes to something else than a dict (pydantic 2): status 422
  with a \<open>detail\<close> that embeds the offending input, passed through \<open>jsonable_encoder\<close> and
  rendered like any response. When rendering raises, it does so inside the exception
  handler and the answer is status 500.
\<close>

definition validation_error :: "json \<Rightarrow> response" where
  "validation_error v = (if renderable (jsonable_encoder v) then HttpError 422 else HttpError 500)"

text \<open>
  Under a content type that is not JSON the body is not decoded: the bytes themselves are
  validated, they are not a dict, and the detail of the 422 embeds them as \<open>b.decode()\<close>.
  When that raises, the answer is status 500.
\<close>

definition validation_error_bytes :: "pylib \<Rightarrow> string \<Rightarrow> response" where
  "validation_error_bytes lib b = (if bytes_decode lib b then HttpError 422 else HttpError 500)"

text \<open>
  The framework calls the handler of a route with the arguments its signature declares.
  Only \<open>echo_message(data: dict)\<close> declares one, the request body, required and of type
  dict:
  \<^item> an empty body counts as missing: status 422;
  \<^item> a body under a content type that is not JSON: the validation error on bytes above;
  \<^item> \<open>JSONDecodeError\<close> from \<open>json.loads\<close>: status 422, whose detail does not embed the body;
  \<^item> any other exception from \<open>json.loads\<close>: status 400;
  \<^item> a decoded value that is not a dict: the validation error above;
  \<^item> a dict: the handler is called and its return value becomes the response.

  In the first five cases the handler is not called. The other handlers take no argument,
  so the body is not read; what they return holds no key starting with \<open>_sa\<close>, only finite
  floats and only ASCII strings, so it is the response as it stands. An exception raised
  by a handler is answered with status 500.
\<close>

fun call_endpoint :: "endpoint \<Rightarrow> pylib \<Rightarrow> request \<Rightarrow> world \<Rightarrow> response \<times> world" where
  "call_endpoint Root lib req w = (Ok root_handler, w)"
| "call_endpoint Health lib req w = (let (j, w1) = health w in (Ok j, w1))"
| "call_endpoint RandomFact lib req w =
     (case get_random_fact w of
        (Inl e, w1) \<Rightarrow> (HttpError 500, w1)
      | (Inr j, w1) \<Rightarrow> (Ok j, w1))"
| "call_endpoint CurrentTime lib req w = (let (j, w1) = get_current_time lib w in (Ok j, w1))"
| "call_endpoint Echo lib req w =
     (if req_body req = [] then (HttpError 422, w)
      else if req_content_type req = OtherContentType
      then (validation_error_bytes lib (req_body req), w)
      else case json_loads lib (req_body req) of
        Inl JSONDecodeError \<Rightarrow> (HttpError 422, w)
      | Inl OtherError \<Rightarrow> (HttpError 400, w)
      | Inr (JObj data) \<Rightarrow> (let (j, w1) = echo_message data w in (json_response j, w1))
      | Inr v \<Rightarrow> (validation_error v, w))"
| "call_endpoint Mcp lib req w = (Ok mcp_endpoint, w)"

text \<open>
  The first route whose path and method both match handles the request. A path that is
  registered under another method only is answered with 405, an unknown path with 404.
  Paths are compared as they stand: the query string is not part of \<open>req_path\<close>, and the
  framework's redirect of a path with a trailing slash is left out.
\<close>

definition route_of :: "http_method \<Rightarrow> string \<Rightarrow> (http_method \<times> string \<times> endpoint) option" where
  "route_of m p = find (\<lambda>(m', p', e). p' = p \<and> m' = m) routes"

definition serve :: "pylib \<Rightarrow> world \<Rightarrow> request \<Rightarrow> response \<times> world" where
  "serve lib w req =
     (case route_of (req_method req) (req_path req) of
        Some (m, p, e) \<Rightarrow> call_endpoint e lib req w
      | None \<Rightarrow>
          (if list_ex (\<lambda>(m, p, e). p = req_path req) routes
           then (HttpError 405, w) else (HttpError 404, w)))"

subsection \<open>The tool catalog\<close>

text \<open>The entries of the \<open>tools\<close> array of a listing.\<close>

definition tools_of :: "json \<Rightarrow> json list" where
  "tools_of j = (case json_get j ''tools'' of Some ts \<Rightarrow> json_items ts | None \<Rightarrow> [])"

text \<open>
  A tool descriptor: a dict with exactly the keys \<open>name\<close>, \<open>description\<close>, \<open>url\<close> and
  \<open>method\<close>, each holding a string.
\<close>

fun is_tool_descriptor :: "json \<Rightarrow> bool" where
  "is_tool_descriptor (JObj kvs) =
     (map fst kvs = [''name'', ''description'', ''url'', ''method''] \<and> list_all is_str (map snd kvs))"
| "is_tool_descriptor _ = False"

text \<open>A tool descriptor names a route when its url and method are those of a registered route.\<close>

definition names_route :: "json \<Rightarrow> bool" where
  "names_route t =
     list_ex (\<lambda>(m, p, e). json_get t ''url'' = Some (JStr p) \<and>
                          json_get t ''method'' = Some (JStr (method_name m)) \<and>
                          route_of m p = Some (m, p, e)) routes"

subsection \<open>Sample inputs\<close>

text \<open>
  A fragment of \<open>json.loads\<close>, enough for the examples below, and \<open>bytes.decode\<close> on ASCII
  bytes.
\<close>

definition demo_loads :: "string \<Rightarrow> loads_error + json" where
  \<open>demo_loads s =
     (if s = ''{"k": [1, null]}'' then Inr (JObj [(''k'', JArr [JInt 1, JNull])])
      else if s = ''[1, 2]'' then Inr (JArr [JInt 1, JInt 2])
      else if s = ''{"_sa": 1, "k": 2}'' then Inr (JObj [(''_sa'', JInt 1), (''k'', JInt 2)])
      else if s = ''{"x": 1e400}'' then Inr (JObj [(''x'', JFloat PosInf)])
      else if s = ''{"x": NaN}'' then Inr (JObj [(''x'', JFloat NaN)])
      else if s = ''1e400'' then Inr (JFloat PosInf)
      else if s = ''"'' @ [CHR 0x5C] @ ''ud800"'' then Inr (JStr [CHR 0xED, CHR 0xA0, CHR 0x80])
      else if s = [CHR 0xFF] then Inl OtherError
      else Inl JSONDecodeError)\<close>

definition demo_lib :: pylib where
  "demo_lib = \<lparr>json_loads = demo_loads, timestamp = (\<lambda>d. 0),
                bytes_decode = list_all (\<lambda>c. of_char c < (128::nat))\<rparr>"

definition demo_time :: datetime where
  "demo_time = \<lparr>year = 2024, month = 3, day = 9, hour = 7, minute = 5, second = 0, microsecond = 1500\<rparr>"

definition demo_world :: world where
  "demo_world = \<lparr>clock = (\<lambda>i. demo_time), ticks = 0, draws = (\<lambda>i. if i = 0 then 3 else 1), drawn = 0\<rparr>"

section \<open>Properties\<close>

subsection \<open>Routing of the six endpoints\<close>

lemma serve_root:
  "req_method req = GET \<Longrightarrow> req_path req = ''/'' \<Longrightarrow> serve lib w req = (Ok root_handler, w)"
  by (simp add: serve_def route_of_def routes_def)

lemma serve_mcp:
  "req_method req = POST \<Longrightarrow> req_path req = ''/mcp'' \<Longrightarrow> serve lib w req = (Ok mcp_endpoint, w)"
  by (simp add: serve_def route_of_def routes_def)

lemma serve_echo:
  "req_method req = POST \<Longrightarrow> req_path req = ''/echo'' \<Longrightarrow>
   serve lib w req = call_endpoint Echo lib req w"
  by (simp add: serve_def route_of_def routes_def)

lemma serve_random_fact:
  "req_method req = GET \<Longrightarrow> req_path req = ''/random-fact'' \<Longrightarrow>
   serve lib w req = call_endpoint RandomFact lib req w"
  by (simp add: serve_def route_of_def routes_def)

subsection \<open>The constant tables\<close>

lemma distinct_facts: "distinct facts"
  by (simp add: facts_def)

lemma length_facts: "length facts = 5"
  by (simp add: facts_def)

lemma tools_of_mcp:
  "tools_of mcp_endpoint =
     [JObj [(''name'', JStr ''get_random_fact''),
            (''description'', JStr ''Get a random interesting fact''),
            (''url'', JStr ''/random-fact''),
            (''method'', JStr ''GET'')],
      JObj [(''name'', JStr ''get_current_time''),
            (''description'', JStr ''Get the current time''),
            (''url'', JStr ''/time''),
            (''method'', JStr ''GET'')],
      JObj [(''name'', JStr ''health_check''),
            (''description'', JStr ''Check server health status''),
            (''url'', JStr ''/health''),
            (''method'', JStr ''GET'')]]"
  by (simp add: tools_of_def mcp_endpoint_def)

text \<open>In a list without repetition every member sits at exactly one index.\<close>

lemma index_count_distinct:
  assumes "distinct xs" and "x \<in> set xs"
  shows "card {k. k < length xs \<and> xs ! k = x} = 1"
proof -
  from assms(2) obtain i where i: "i < length xs" "xs ! i = x"
    by (auto simp: in_set_conv_nth)
  have "{k. k < length xs \<and> xs ! k = x} = {i}"
    using assms(1) i by (auto simp: nth_eq_iff_index_eq)
  then show ?thesis by simp
qed

lemma demo_time_iso: "isoformat demo_time = ''2024-03-09T07:05:00.001500''"
  by code_simp

subsection \<open>Encoding and rendering\<close>


lemma renderable_encoder: "renderable v \<Longrightarrow> renderable (jsonable_encoder v)"
  by (induction v rule: jsonable_encoder.induct) (auto simp: list_all_iff)

lemma ascii_encodable:
  "\<forall>c \<in> set s. of_char c < (128::nat) \<Longrightarrow> utf8_encodable s"
  unfolding utf8_encodable_def
  by (induction s rule: has_surrogate.induct) auto

lemma digits_ascii: "c \<in> set (digits n) \<Longrightarrow> of_char c < (128::nat)"
proof (induction n rule: digits.induct)
  case (1 n)
  show ?case
  proof (cases "n < 10")
    case True
    with "1.prems" show ?thesis by (simp add: digits.simps [of n])
  next
    case False
    from "1.prems" False have "c \<in> set (digits (n div 10)) \<or> c = char_of (48 + n mod 10)"
      by (auto simp: digits.simps [of n])
    then show ?thesis
    proof
      assume "c \<in> set (digits (n div 10))"
      with "1.IH" False show ?thesis by simp
    next
      assume c: "c = char_of (48 + n mod 10)"
      have "48 + n mod 10 < 128" by simp
      with c show ?thesis by simp
    qed
  qed
qed

lemma zpad_ascii: "c \<in> set (zpad w n) \<Longrightarrow> of_char c < (128::nat)"
  by (auto simp: zpad_def dest: digits_ascii)

lemma isoformat_encodable: "utf8_encodable (isoformat d)"
  by (rule ascii_encodable) (auto simp: isoformat_def dest: zpad_ascii)

text \<open>
  What the five handlers without argument return is the response as it stands: encoding
  changes nothing and rendering succeeds.
\<close>

lemma json_response_root: "json_response root_handler = Ok root_handler"
  by (simp add: json_response_def root_handler_def sa_key_def utf8_encodable_def)

lemma json_response_mcp: "json_response mcp_endpoint = Ok mcp_endpoint"
  by (simp add: json_response_def mcp_endpoint_def sa_key_def utf8_encodable_def)

lemma json_response_health: "json_response (fst (health w)) = Ok (fst (health w))"
  using isoformat_encodable [of "clock w (ticks w)"]
  by (simp add: json_response_def health_def now_def sa_key_def)
     (simp add: utf8_encodable_def)

lemma json_response_current_time:
  "json_response (fst (get_current_time lib w)) = Ok (fst (get_current_time lib w))"
  using isoformat_encodable [of "clock w (ticks w)"]
  by (simp add: json_response_def get_current_time_def now_def sa_key_def)
     (simp add: utf8_encodable_def)

lemma facts_encodable: "f \<in> set facts \<Longrightarrow> utf8_encodable f"
  by (rule ascii_encodable) (auto simp: facts_def)

lemma json_response_random_fact:
  assumes "fst (get_random_fact w) = Inr j"
  shows "json_response j = Ok j"
proof -
  let ?k = "draws w (drawn w)"
  from assms have k: "?k < length facts"
    by (auto simp: get_random_fact_def random_choice_def Let_def now_def split: if_splits)
  with assms have j: "j = JObj [(''fact'', JStr (facts ! ?k)),
                               (''timestamp'', JStr (isoformat (clock w (ticks w))))]"
    by (auto simp: get_random_fact_def random_choice_def Let_def now_def)
  from k have "utf8_encodable (facts ! ?k)"
    by (intro facts_encodable) simp
  with isoformat_encodable [of "clock w (ticks w)"] show ?thesis
    unfolding j by (simp add: json_response_def sa_key_def) (simp add: utf8_encodable_def)
qed

subsection \<open>\<open>/echo\<close>\<close>

lemma echo_response:
  assumes "req_method req = POST" and "req_path req = ''/echo''" and "req_body req \<noteq> []"
    and "req_content_type req \<noteq> OtherContentType"
    and "json_loads lib (req_body req) = Inr (JObj X)"
  shows "serve lib w req =
           (json_response (JObj [(''echoed'', JObj X),
                                 (''timestamp'', JStr (isoformat (clock w (ticks w)))),
                                 (''message'', JStr ''Echo successful'')]),
            w\<lparr>ticks := Suc (ticks w)\<rparr>)"
  using assms by (simp add: serve_echo echo_message_def now_def)

lemma echo_content:
  "jsonable_encoder (JObj [(''echoed'', JObj X), (''timestamp'', JStr t), (''message'', JStr m)]) =
     JObj [(''echoed'', jsonable_encoder (JObj X)), (''timestamp'', JStr t), (''message'', JStr m)]"
  by (simp add: sa_key_def)

lemma echo_renderable:
  "renderable (JObj [(''echoed'', e), (''timestamp'', JStr (isoformat d)),
                     (''message'', JStr ''Echo successful'')]) = renderable e"
  using isoformat_encodable [of d] by (simp add: utf8_encodable_def)




text \<open>
  An object holding a number that decodes to an infinity, or a string with a lone
  surrogate, cannot be rendered: the handler runs and the answer is status 500.
\<close>

lemma echo_unrenderable:
  assumes "req_method req = POST" and "req_path req = ''/echo''" and "req_body req \<noteq> []"
    and "req_content_type req \<noteq> OtherContentType"
    and "json_loads lib (req_body req) = Inr (JObj X)"
    and "\<not> renderable (jsonable_encoder (JObj X))"
  shows "serve lib w req = (HttpError 500, w\<lparr>ticks := Suc (ticks w)\<rparr>)"
  using assms(6)
  by (simp only: echo_response [OF assms(1-5)] json_response_def Let_def
        echo_content echo_renderable if_False)

lemma echo_infinity_example:
  \<open>serve demo_lib demo_world
     \<lparr>req_method = POST, req_path = ''/echo'', req_body = ''{"x": 1e400}'',
        req_content_type = JsonContentType\<rparr> =
   (HttpError 500, demo_world\<lparr>ticks := Suc 0\<rparr>)\<close>
  using echo_unrenderable
      [of \<open>\<lparr>req_method = POST, req_path = ''/echo'', req_body = ''{"x": 1e400}'',
        req_content_type = JsonContentType\<rparr>\<close>
          demo_lib "[(''x'', JFloat PosInf)]" demo_world]
  by (simp add: demo_lib_def demo_loads_def sa_key_def demo_world_def)

text \<open>
  Under a content type that is not JSON, a body is answered with status 422 when its bytes
  are UTF-8 and with status 500 otherwise, whatever it holds; the handler does not run.
\<close>

lemma echo_other_content_type:
  assumes "req_method req = POST" and "req_path req = ''/echo''" and "req_body req \<noteq> []"
    and "req_content_type req = OtherContentType"
  shows "serve lib w req =
           (if bytes_decode lib (req_body req) then HttpError 422 else HttpError 500, w)"
  using assms by (simp add: serve_echo validation_error_bytes_def)

lemma echo_other_content_type_example:
  \<open>serve demo_lib demo_world
     \<lparr>req_method = POST, req_path = ''/echo'', req_body = ''{"k": [1, null]}'',
        req_content_type = OtherContentType\<rparr> = (HttpError 422, demo_world)\<close>
  by (simp add: serve_echo validation_error_bytes_def demo_lib_def)

text \<open>
  Claim C7, as amended. A POST to \<open>/echo\<close> whose body is empty, or is sent as JSON (under a
  JSON content type or none) and is not decoded by \<open>json.loads\<close>, is answered with a 4xx
  error: 422 when the body is empty or \<open>json.loads\<close> raises \<open>JSONDecodeError\<close>, 400 when it
  raises anything else. No success payload is produced and the handler does not run (the
  world, and with it the count of clock readings, is unchanged).
\<close>

theorem echo_undecodable_rejected:
  assumes "req_method req = POST" and "req_path req = ''/echo''"
    and "req_body req = [] \<or>
         (req_content_type req \<noteq> OtherContentType \<and> json_loads lib (req_body req) = Inl e)"
  shows "serve lib w req =
           (HttpError (if req_body req = [] \<or> e = JSONDecodeError then 422 else 400), w)
         \<and> is_4xx (fst (serve lib w req))"
  using assms by (cases e) (auto simp: serve_echo is_4xx_def)

theorem echo_undecodable_rejected_witness:
  \<open>serve demo_lib demo_world \<lparr>req_method = POST, req_path = ''/echo'', req_body = ''{"k": '',
        req_content_type = JsonContentType\<rparr>
     = (HttpError 422, demo_world)
   \<and> serve demo_lib demo_world \<lparr>req_method = POST, req_path = ''/echo'', req_body = [CHR 0xFF],
        req_content_type = JsonContentType\<rparr>
     = (HttpError 400, demo_world)\<close>
  using echo_undecodable_rejected
      [of \<open>\<lparr>req_method = POST, req_path = ''/echo'', req_body = ''{"k": '',
        req_content_type = JsonContentType\<rparr>\<close>
          demo_lib JSONDecodeError demo_world]
    echo_undecodable_rejected
      [of \<open>\<lparr>req_method = POST, req_path = ''/echo'', req_body = [CHR 0xFF],
        req_content_type = JsonContentType\<rparr>\<close>
          demo_lib OtherError demo_world]
  by (simp add: demo_lib_def demo_loads_def)

text \<open>
  As the claim is written, for every body that is not valid JSON, it fails: \<open>NaN\<close> is not
  JSON, yet \<open>json.loads\<close> decodes it; the handler runs (a clock reading is consumed) and
  the answer is status 500, since the response cannot be rendered.
\<close>

theorem echo_malformed_counterexample:
  \<open>serve demo_lib demo_world
     \<lparr>req_method = POST, req_path = ''/echo'', req_body = ''{"x": NaN}'',
        req_content_type = JsonContentType\<rparr> =
     (HttpError 500, demo_world\<lparr>ticks := Suc 0\<rparr>)
   \<and> \<not> is_4xx (HttpError 500)\<close>
proof -
  let ?req = \<open>\<lparr>req_method = POST, req_path = ''/echo'', req_body = ''{"x": NaN}'',
        req_content_type = JsonContentType\<rparr>\<close>
  have l: \<open>json_loads demo_lib (req_body ?req) = Inr (JObj [(''x'', JFloat NaN)])\<close>
    by (simp add: demo_lib_def demo_loads_def)
  have "serve demo_lib demo_world ?req = (HttpError 500, demo_world\<lparr>ticks := Suc (ticks demo_world)\<rparr>)"
    by (rule echo_unrenderable [OF _ _ _ _ l]) (simp_all add: sa_key_def)
  then show ?thesis
    by (simp add: demo_world_def is_4xx_def)
qed




text \<open>The same holds for a string with a lone surrogate.\<close>

lemma echo_surrogate_example:
  \<open>serve demo_lib demo_world
     \<lparr>req_method = POST, req_path = ''/echo'', req_body = ''"'' @ [CHR 0x5C] @ ''ud800"'',
        req_content_type = JsonContentType\<rparr>
     = (HttpError 500, demo_world)\<close>
  by (simp add: serve_echo demo_lib_def demo_loads_def validation_error_def utf8_encodable_def)

subsection \<open>\<open>/random-fact\<close>\<close>

text \<open>
  Claim C2. Every call to \<open>/random-fact\<close> returns as \<open>fact\<close> the entry of the fact list at
  the index the random generator draws for that call, so a member of the list. The list
  has five entries and each of them sits at exactly one of the five indices, so that a
  uniform draw of the index is a uniform pick among the five facts. Each call consumes one
  draw of its own: the next call picks again, with the next draw.
\<close>

theorem random_fact_member_uniform:
  assumes "req_method req = GET" and "req_path req = ''/random-fact''"
    and "draws w (drawn w) < length facts"
  shows "fst (serve lib w req) =
           Ok (JObj [(''fact'', JStr (facts ! draws w (drawn w))),
                     (''timestamp'', JStr (isoformat (clock w (ticks w))))])
         \<and> facts ! draws w (drawn w) \<in> set facts
         \<and> drawn (snd (serve lib w req)) = Suc (drawn w)
         \<and> draws (snd (serve lib w req)) = draws w
         \<and> length facts = 5
         \<and> (\<forall>f \<in> set facts. card {k. k < length facts \<and> facts ! k = f} = 1)"
proof -
  have "serve lib w req =
          (Ok (JObj [(''fact'', JStr (facts ! draws w (drawn w))),
                     (''timestamp'', JStr (isoformat (clock w (ticks w))))]),
           w\<lparr>drawn := Suc (drawn w), ticks := Suc (ticks w)\<rparr>)"
    using assms
    by (simp add: serve_random_fact get_random_fact_def random_choice_def now_def Let_def)
  moreover have "facts ! draws w (drawn w) \<in> set facts"
    using assms(3) by simp
  moreover have "\<forall>f \<in> set facts. card {k. k < length facts \<and> facts ! k = f} = 1"
    using index_count_distinct [OF distinct_facts] by blast
  ultimately show ?thesis
    by (simp add: length_facts)
qed

theorem random_fact_member_uniform_witness:
  "fst (serve demo_lib demo_world \<lparr>req_method = GET, req_path = ''/random-fact'', req_body = [],
        req_content_type = NoContentType\<rparr>) =
     Ok (JObj [(''fact'', JStr (''A group of flamingos is called a '' @ [CHR 0x27] @
                                 ''flamboyance'' @ [CHR 0x27])),
               (''timestamp'', JStr ''2024-03-09T07:05:00.001500'')])"
  using random_fact_member_uniform
      [of "\<lparr>req_method = GET, req_path = ''/random-fact'', req_body = [],
        req_content_type = NoContentType\<rparr>" demo_world demo_lib]
  by (simp add: demo_world_def facts_def demo_time_iso)

subsection \<open>\<open>/\<close>\<close>

text \<open>
  Claim C6. Every GET request to \<open>/\<close> is answered with exactly the constant object whose
  only field \<open>message\<close> holds \<open>Simple MCP Server is running!\<close>.
\<close>

theorem root_constant:
  assumes "req_method req = GET" and "req_path req = ''/''"
  shows "fst (serve lib w req) = Ok (JObj [(''message'', JStr ''Simple MCP Server is running!'')])"
  using assms by (simp add: serve_root root_handler_def)

theorem root_constant_witness:
  "fst (serve demo_lib demo_world \<lparr>req_method = GET, req_path = ''/'', req_body = [],
        req_content_type = NoContentType\<rparr>)
     = Ok (JObj [(''message'', JStr ''Simple MCP Server is running!'')])"
  using root_constant [of "\<lparr>req_method = GET, req_path = ''/'', req_body = [],
        req_content_type = NoContentType\<rparr>" demo_lib demo_world]
  by simp

subsection \<open>\<open>/mcp\<close>\<close>

text \<open>
  Claim C3, as amended. The static tool catalog of the \<open>/mcp\<close> listing consists of three
  tool-descriptor instances, each a dict with exactly the string fields \<open>name\<close>,
  \<open>description\<close>, \<open>url\<close> and \<open>method\<close>.
\<close>

theorem catalog_three_descriptors:
  "length (tools_of mcp_endpoint) = 3 \<and> list_all is_tool_descriptor (tools_of mcp_endpoint)"
  by (simp add: tools_of_mcp)

text \<open>As the claim is written, with five instances, it fails on the catalog of the code.\<close>

theorem catalog_five_counterexample:
  "\<not> (length (tools_of mcp_endpoint) = 5 \<and> list_all is_tool_descriptor (tools_of mcp_endpoint))"
  by (simp add: tools_of_mcp)

text \<open>
  Claim C4. Every call to \<open>/mcp\<close> is answered with a document whose \<open>tools\<close> array has
  exactly 3 entries, each with non-empty \<open>name\<close>, \<open>description\<close>, \<open>url\<close> and \<open>method\<close>
  fields, and whose \<open>server_info.version\<close> is \<open>1.0.0\<close>.
\<close>

theorem mcp_three_tools:
  assumes "req_method req = POST" and "req_path req = ''/mcp''"
  shows "\<exists>resp ts info.
           fst (serve lib w req) = Ok resp
         \<and> json_get resp ''tools'' = Some (JArr ts)
         \<and> length ts = 3
         \<and> (\<forall>t \<in> set ts. nonempty_str_field t ''name'' \<and> nonempty_str_field t ''description''
                        \<and> nonempty_str_field t ''url'' \<and> nonempty_str_field t ''method'')
         \<and> json_get resp ''server_info'' = Some info
         \<and> json_get info ''version'' = Some (JStr ''1.0.0'')"
  using assms by (simp add: serve_mcp mcp_endpoint_def nonempty_str_field_def)

theorem mcp_three_tools_witness:
  "\<exists>resp ts info.
           fst (serve demo_lib demo_world
                  \<lparr>req_method = POST, req_path = ''/mcp'', req_body = ''[1, 2]'',
        req_content_type = JsonContentType\<rparr>) = Ok resp
         \<and> json_get resp ''tools'' = Some (JArr ts)
         \<and> length ts = 3
         \<and> (\<forall>t \<in> set ts. nonempty_str_field t ''name'' \<and> nonempty_str_field t ''description''
                        \<and> nonempty_str_field t ''url'' \<and> nonempty_str_field t ''method'')
         \<and> json_get resp ''server_info'' = Some info
         \<and> json_get info ''version'' = Some (JStr ''1.0.0'')"
  using mcp_three_tools
      [of "\<lparr>req_method = POST, req_path = ''/mcp'', req_body = ''[1, 2]'',
        req_content_type = JsonContentType\<rparr>" demo_lib demo_world]
  by simp

text \<open>
  Claim C8. The \<open>/mcp\<close> endpoint is static: any two POST requests to \<open>/mcp\<close>, whatever
  their bodies, the library and the state of the world, get the same response, the
  constant document, and the world is left as it was.
\<close>

theorem mcp_static:
  assumes "req_method r1 = POST" and "req_path r1 = ''/mcp''"
    and "req_method r2 = POST" and "req_path r2 = ''/mcp''"
  shows "fst (serve lib1 w1 r1) = fst (serve lib2 w2 r2)
         \<and> fst (serve lib1 w1 r1) = Ok mcp_endpoint
         \<and> snd (serve lib1 w1 r1) = w1"
  using assms by (simp add: serve_mcp)

theorem mcp_static_witness:
  \<open>fst (serve demo_lib demo_world \<lparr>req_method = POST, req_path = ''/mcp'', req_body = [],
        req_content_type = JsonContentType\<rparr>)
     = fst (serve demo_lib (demo_world\<lparr>ticks := 7, drawn := 2\<rparr>)
             \<lparr>req_method = POST, req_path = ''/mcp'', req_body = ''{"k": [1, null]}'',
        req_content_type = JsonContentType\<rparr>)\<close>
  using mcp_static [of \<open>\<lparr>req_method = POST, req_path = ''/mcp'', req_body = [],
        req_content_type = JsonContentType\<rparr>\<close>
      \<open>\<lparr>req_method = POST, req_path = ''/mcp'', req_body = ''{"k": [1, null]}'',
        req_content_type = JsonContentType\<rparr>\<close>
      demo_lib demo_world demo_lib \<open>demo_world\<lparr>ticks := 7, drawn := 2\<rparr>\<close>]
  by simp

text \<open>
  Claim C10. Every tool descriptor of the \<open>/mcp\<close> catalog refers to a route the server
  serves: the pairs of url and method are (\<open>/random-fact\<close>, GET), (\<open>/time\<close>, GET) and
  (\<open>/health\<close>, GET), and each is the path and method of a registered handler.
\<close>

theorem catalog_names_routes:
  "(\<forall>t \<in> set (tools_of mcp_endpoint). names_route t)
   \<and> map (\<lambda>t. (json_get t ''url'', json_get t ''method'')) (tools_of mcp_endpoint) =
       [(Some (JStr ''/random-fact''), Some (JStr ''GET'')),
        (Some (JStr ''/time''), Some (JStr ''GET'')),
        (Some (JStr ''/health''), Some (JStr ''GET''))]
   \<and> route_of GET ''/random-fact'' = Some (GET, ''/random-fact'', RandomFact)
   \<and> route_of GET ''/time'' = Some (GET, ''/time'', CurrentTime)
   \<and> route_of GET ''/health'' = Some (GET, ''/health'', Health)"
  by (simp add: tools_of_mcp names_route_def route_of_def routes_def)

theorem catalog_names_routes_witness:
  "names_route (JObj [(''name'', JStr ''get_current_time''),
                      (''description'', JStr ''Get the current time''),
                      (''url'', JStr ''/time''),
                      (''method'', JStr ''GET'')])"
  using catalog_names_routes by (simp add: tools_of_mcp)

end
